theory Spec2Isabelle
  imports Main "HOL-Library.Word"
begin

unbundle bit_operations_syntax

section \<open>Data model of \<^verbatim>\<open>common_thermia.c\<close>\<close>

text \<open>
  C's \<^verbatim>\<open>int\<close> is a 32-bit word, read as two's complement by \<open>sint\<close>. The two
  enumerations \<^verbatim>\<open>reg_type_t\<close> and \<^verbatim>\<open>model_t\<close> are used as bit flags (the source
  combines them with \<^verbatim>\<open>|\<close> and tests them with \<^verbatim>\<open>&\<close>), so they are words whose
  enumerators are the constants below.
\<close>

type_synonym c_int = "32 word"
type_synonym uint8_t = "8 word"
type_synonym uint16_t = "16 word"

type_synonym reg_type_t = "32 word"

definition REG_COIL_STATUS :: reg_type_t where "REG_COIL_STATUS = 0x01"
definition REG_INPUT_STATUS :: reg_type_t where "REG_INPUT_STATUS = 0x02"
definition REG_INPUT :: reg_type_t where "REG_INPUT = 0x04"
definition REG_HOLDING :: reg_type_t where "REG_HOLDING = 0x08"

type_synonym model_t = "32 word"

definition MODEL_MEGA :: model_t where "MODEL_MEGA = 0x01"
definition MODEL_INVERTER :: model_t where "MODEL_INVERTER = 0x2"

text \<open>
  \<^verbatim>\<open>register_def_t\<close>. The fields carry the prefix \<open>reg_\<close> because the source's
  functions use \<^verbatim>\<open>name\<close>, \<^verbatim>\<open>type\<close>, \<^verbatim>\<open>address\<close> and \<^verbatim>\<open>model\<close> as parameter names too.
\<close>

record register_def_t =
  reg_name :: string
  reg_type :: reg_type_t
  reg_address :: c_int
  reg_defacto :: c_int
  reg_scale :: c_int
  reg_model :: model_t
  reg_system :: string
  reg_subsystem :: string
  reg_description :: string

section \<open>The register table and its lookup\<close>

text \<open>
  \<^verbatim>\<open>g_registers\<close> is filled from the generated header
  \<^verbatim>\<open>common_thermia_registers.h\<close>, which is not part of the sources; the table is
  therefore a parameter \<open>regs\<close> of every function that reads it.

  \<^verbatim>\<open>find_register\<close> scans the table from index 0 and returns the address of the first
  entry whose name compares equal under \<^verbatim>\<open>strcmp\<close> and whose type has a bit in common
  with the requested type; \<^verbatim>\<open>NULL\<close> is \<open>None\<close>.
\<close>

fun find_register :: "register_def_t list \<Rightarrow> string \<Rightarrow> reg_type_t \<Rightarrow> register_def_t option" where
  "find_register [] name type = None"
| "find_register (r # rs) name type =
     (if reg_name r = name \<and> reg_type r AND type \<noteq> 0 then Some r
      else find_register rs name type)"

section \<open>The field-bus library and the session state\<close>

text \<open>
  \<^verbatim>\<open>modbus_t *\<close>: a non-null pointer is a handle, \<^verbatim>\<open>NULL\<close> is \<open>None\<close>.
\<close>

type_synonym modbus_t = nat

text \<open>The calls the source makes into libmodbus, with their arguments.\<close>

datatype modbus_call =
    Modbus_new_tcp string c_int
  | Modbus_set_slave modbus_t c_int
  | Modbus_connect modbus_t
  | Modbus_close modbus_t
  | Modbus_free modbus_t
  | Modbus_read_bits modbus_t c_int c_int
  | Modbus_read_input_bits modbus_t c_int c_int
  | Modbus_read_input_registers modbus_t c_int c_int
  | Modbus_read_registers modbus_t c_int c_int
  | Modbus_write_bit modbus_t c_int c_int
  | Modbus_write_register modbus_t c_int uint16_t

text \<open>
  libmodbus and the controller behind it are outside the sources. Every library
  function whose result the source uses is a field of the record \<open>modbus\<close>; its first
  argument is the list of library calls made so far, so a reply may depend on the whole
  history (a coil written earlier, a connection dropped). A read returns the return code
  together with the content of the one-element destination buffer after the call.
\<close>

record modbus =
  modbus_new_tcp :: "modbus_call list \<Rightarrow> string \<Rightarrow> c_int \<Rightarrow> modbus_t option"
  modbus_connect :: "modbus_call list \<Rightarrow> modbus_t \<Rightarrow> c_int"
  modbus_read_bits :: "modbus_call list \<Rightarrow> modbus_t \<Rightarrow> c_int \<Rightarrow> c_int \<Rightarrow> c_int \<times> uint8_t"
  modbus_read_input_bits :: "modbus_call list \<Rightarrow> modbus_t \<Rightarrow> c_int \<Rightarrow> c_int \<Rightarrow> c_int \<times> uint8_t"
  modbus_read_input_registers :: "modbus_call list \<Rightarrow> modbus_t \<Rightarrow> c_int \<Rightarrow> c_int \<Rightarrow> c_int \<times> uint16_t"
  modbus_read_registers :: "modbus_call list \<Rightarrow> modbus_t \<Rightarrow> c_int \<Rightarrow> c_int \<Rightarrow> c_int \<times> uint16_t"
  modbus_write_bit :: "modbus_call list \<Rightarrow> modbus_t \<Rightarrow> c_int \<Rightarrow> c_int \<Rightarrow> c_int"
  modbus_write_register :: "modbus_call list \<Rightarrow> modbus_t \<Rightarrow> c_int \<Rightarrow> uint16_t \<Rightarrow> c_int"

text \<open>
  The two file-scope variables \<^verbatim>\<open>g_ctx\<close> and \<^verbatim>\<open>g_model\<close>, and the log of library
  calls, oldest first.
\<close>

record state =
  g_ctx :: "modbus_t option"
  g_model :: model_t
  calls :: "modbus_call list"

definition initial_state :: state where
  "initial_state = \<lparr>g_ctx = None, g_model = MODEL_MEGA, calls = []\<rparr>"

definition invoke :: "modbus_call \<Rightarrow> state \<Rightarrow> state" where
  "invoke c s = s\<lparr>calls := calls s @ [c]\<rparr>"

text \<open>
  Every public function returns \<^verbatim>\<open>false\<close> after printing one diagnostic to
  \<^verbatim>\<open>stderr\<close>. The result \<open>Inl e\<close> is the return value \<^verbatim>\<open>false\<close> with \<open>e\<close> naming the
  diagnostic printed; \<open>Inr ()\<close> is \<^verbatim>\<open>true\<close>. The text of \<^verbatim>\<open>modbus_strerror(errno)\<close>
  that some diagnostics append is not modelled.
\<close>

datatype error =
    Initialised_already \<comment> \<open>\<^verbatim>\<open>modbus: initialised already\<close>\<close>
  | Initialisation_failed \<comment> \<open>\<^verbatim>\<open>modbus: initialisation failed\<close>\<close>
  | Connection_failed \<comment> \<open>\<^verbatim>\<open>modbus: connection failed\<close>\<close>
  | Not_initialised \<comment> \<open>\<^verbatim>\<open>modbus: not initialised/connected\<close>\<close>
  | Register_not_found string \<comment> \<open>\<^verbatim>\<open>register: '%s' not found\<close>\<close>
  | Register_not_supported string \<comment> \<open>\<^verbatim>\<open>register: '%s' not supported by model\<close>\<close>
  | Failed_to_read_bit \<comment> \<open>\<^verbatim>\<open>register: failed to read bit\<close>\<close>
  | Failed_to_read_int \<comment> \<open>\<^verbatim>\<open>register: failed to read int\<close>\<close>
  | Failed_to_write_bit \<comment> \<open>\<^verbatim>\<open>register: failed to write bit\<close>\<close>
  | Failed_to_write_int \<comment> \<open>\<^verbatim>\<open>register: failed to write int\<close>\<close>

text \<open>\<^verbatim>\<open>return reg->model & g_model;\<close> converted to \<^verbatim>\<open>bool\<close>: true when nonzero.\<close>

definition is_register_supported :: "state \<Rightarrow> register_def_t \<Rightarrow> bool" where
  "is_register_supported s reg \<longleftrightarrow> reg_model reg AND g_model s \<noteq> 0"

section \<open>Opening and closing the session\<close>

definition thermia_modbus_open ::
  "modbus \<Rightarrow> state \<Rightarrow> string \<Rightarrow> c_int \<Rightarrow> model_t \<Rightarrow> (error + unit) \<times> state" where
  "thermia_modbus_open lib s address port model =
     (case g_ctx s of
        Some _ \<Rightarrow> (Inl Initialised_already, s)
      | None \<Rightarrow>
          let s1 = s\<lparr>g_model := model\<rparr>;
              new = modbus_new_tcp lib (calls s1) address port;
              s2 = (invoke (Modbus_new_tcp address port) s1)\<lparr>g_ctx := new\<rparr>
          in (case new of
                None \<Rightarrow> (Inl Initialisation_failed, s2)
              | Some ctx \<Rightarrow>
                  let s3 = invoke (Modbus_set_slave ctx 1) s2;
                      rc = modbus_connect lib (calls s3) ctx;
                      s4 = invoke (Modbus_connect ctx) s3
                  in if rc = - 1
                     then (Inl Connection_failed, (invoke (Modbus_free ctx) s4)\<lparr>g_ctx := None\<rparr>)
                     else (Inr (), s4)))"

definition thermia_modbus_close :: "state \<Rightarrow> state" where
  "thermia_modbus_close s =
     (case g_ctx s of
        None \<Rightarrow> s
      | Some ctx \<Rightarrow> (invoke (Modbus_free ctx) (invoke (Modbus_close ctx) s))\<lparr>g_ctx := None\<rparr>)"

section \<open>The four accessors\<close>

text \<open>
  The macros \<^verbatim>\<open>MODBUS_CHECK\<close> and \<^verbatim>\<open>REGISTER_CHECK\<close> are expanded in place, in the
  order the source writes them. The two read functions store through the pointer
  \<^verbatim>\<open>value\<close>: the argument \<open>value\<close> is the content of that location before the call and
  the middle component of the result is its content after the call.
\<close>

definition thermia_modbus_read_register_bit ::
  "modbus \<Rightarrow> register_def_t list \<Rightarrow> state \<Rightarrow> string \<Rightarrow> bool \<Rightarrow> (error + unit) \<times> bool \<times> state" where
  "thermia_modbus_read_register_bit lib regs s name value =
     (case g_ctx s of
        None \<Rightarrow> (Inl Not_initialised, value, s)
      | Some ctx \<Rightarrow>
          (case find_register regs name (REG_COIL_STATUS OR REG_INPUT_STATUS) of
             None \<Rightarrow> (Inl (Register_not_found name), value, s)
           | Some reg \<Rightarrow>
               if \<not> is_register_supported s reg
               then (Inl (Register_not_supported name), value, s)
               else
                 let (rc, reg_value) =
                       (if reg_type reg = REG_COIL_STATUS
                        then modbus_read_bits lib (calls s) ctx (reg_address reg) 1
                        else modbus_read_input_bits lib (calls s) ctx (reg_address reg) 1);
                     s' = invoke (if reg_type reg = REG_COIL_STATUS
                                  then Modbus_read_bits ctx (reg_address reg) 1
                                  else Modbus_read_input_bits ctx (reg_address reg) 1) s
                 in if rc = - 1 then (Inl Failed_to_read_bit, value, s')
                    else (Inr (), reg_value \<noteq> 0, s')))"

text \<open>\<^verbatim>\<open>*value = (int16_t)reg_value;\<close> is the sign-extending cast \<open>scast\<close>.\<close>

definition thermia_modbus_read_register_int ::
  "modbus \<Rightarrow> register_def_t list \<Rightarrow> state \<Rightarrow> string \<Rightarrow> c_int \<Rightarrow> (error + unit) \<times> c_int \<times> state" where
  "thermia_modbus_read_register_int lib regs s name value =
     (case g_ctx s of
        None \<Rightarrow> (Inl Not_initialised, value, s)
      | Some ctx \<Rightarrow>
          (case find_register regs name (REG_INPUT OR REG_HOLDING) of
             None \<Rightarrow> (Inl (Register_not_found name), value, s)
           | Some reg \<Rightarrow>
               if \<not> is_register_supported s reg
               then (Inl (Register_not_supported name), value, s)
               else
                 let (rc, reg_value) =
                       (if reg_type reg = REG_INPUT
                        then modbus_read_input_registers lib (calls s) ctx (reg_address reg) 1
                        else modbus_read_registers lib (calls s) ctx (reg_address reg) 1);
                     s' = invoke (if reg_type reg = REG_INPUT
                                  then Modbus_read_input_registers ctx (reg_address reg) 1
                                  else Modbus_read_registers ctx (reg_address reg) 1) s
                 in if rc = - 1 then (Inl Failed_to_read_int, value, s')
                    else (Inr (), scast reg_value, s')))"

definition thermia_modbus_write_register_bit ::
  "modbus \<Rightarrow> register_def_t list \<Rightarrow> state \<Rightarrow> string \<Rightarrow> bool \<Rightarrow> (error + unit) \<times> state" where
  "thermia_modbus_write_register_bit lib regs s name value =
     (case g_ctx s of
        None \<Rightarrow> (Inl Not_initialised, s)
      | Some ctx \<Rightarrow>
          (case find_register regs name REG_COIL_STATUS of
             None \<Rightarrow> (Inl (Register_not_found name), s)
           | Some reg \<Rightarrow>
               if \<not> is_register_supported s reg
               then (Inl (Register_not_supported name), s)
               else
                 let rc = modbus_write_bit lib (calls s) ctx (reg_address reg) (if value then 1 else 0);
                     s' = invoke (Modbus_write_bit ctx (reg_address reg) (if value then 1 else 0)) s
                 in if rc = - 1 then (Inl Failed_to_write_bit, s') else (Inr (), s')))"

text \<open>\<^verbatim>\<open>(uint16_t)value\<close> keeps the low 16 bits of the \<^verbatim>\<open>int\<close>: \<open>ucast\<close>.\<close>

definition thermia_modbus_write_register_int ::
  "modbus \<Rightarrow> register_def_t list \<Rightarrow> state \<Rightarrow> string \<Rightarrow> c_int \<Rightarrow> (error + unit) \<times> state" where
  "thermia_modbus_write_register_int lib regs s name value =
     (case g_ctx s of
        None \<Rightarrow> (Inl Not_initialised, s)
      | Some ctx \<Rightarrow>
          (case find_register regs name REG_HOLDING of
             None \<Rightarrow> (Inl (Register_not_found name), s)
           | Some reg \<Rightarrow>
               if \<not> is_register_supported s reg
               then (Inl (Register_not_supported name), s)
               else
                 let rc = modbus_write_register lib (calls s) ctx (reg_address reg) (ucast value);
                     s' = invoke (Modbus_write_register ctx (reg_address reg) (ucast value)) s
                 in if rc = - 1 then (Inl Failed_to_write_int, s') else (Inr (), s')))"

section \<open>Sample table and sample library\<close>

text \<open>
  A small register table and a library with constant replies, used to run the
  functions on concrete inputs. The register names are those of \<^verbatim>\<open>print_usage\<close> and
  of the \<^verbatim>\<open>Makefile\<close>; the last entry is an extra holding register.
\<close>

definition sample_registers :: "register_def_t list" where
  "sample_registers =
     [\<lparr>reg_name = ''valueHeatpumpBrineInTemperature'', reg_type = REG_HOLDING, reg_address = 100,
        reg_defacto = 0, reg_scale = 10, reg_model = MODEL_MEGA OR MODEL_INVERTER,
        reg_system = ''heatpump'', reg_subsystem = ''brine'', reg_description = ''brine in''\<rparr>,
      \<lparr>reg_name = ''alarmHeatpumpBrineInSensor'', reg_type = REG_INPUT_STATUS, reg_address = 20,
        reg_defacto = 0, reg_scale = 1, reg_model = MODEL_MEGA OR MODEL_INVERTER,
        reg_system = ''heatpump'', reg_subsystem = ''alarm'', reg_description = ''sensor alarm''\<rparr>,
      \<lparr>reg_name = ''enableHeatpumpResetAllAlarms'', reg_type = REG_COIL_STATUS, reg_address = 50,
        reg_defacto = 0, reg_scale = 1, reg_model = MODEL_MEGA,
        reg_system = ''heatpump'', reg_subsystem = ''alarm'', reg_description = ''reset alarms''\<rparr>,
      \<lparr>reg_name = ''valueHeatpumpSoftwareVersionMajor'', reg_type = REG_INPUT, reg_address = 30,
        reg_defacto = 0, reg_scale = 1, reg_model = MODEL_MEGA,
        reg_system = ''heatpump'', reg_subsystem = ''software'', reg_description = ''major''\<rparr>,
      \<lparr>reg_name = ''sampleMegaSetpoint'', reg_type = REG_HOLDING, reg_address = 40,
        reg_defacto = 0, reg_scale = 10, reg_model = MODEL_MEGA,
        reg_system = ''heatpump'', reg_subsystem = ''sample'', reg_description = ''setpoint''\<rparr>]"

text \<open>
  \<open>sample_modbus new rc b w\<close>: \<^verbatim>\<open>modbus_new_tcp\<close> returns \<open>new\<close>, every return code is
  \<open>rc\<close>, a bit read delivers \<open>b\<close> and a register read delivers \<open>w\<close>.
\<close>

definition sample_modbus :: "modbus_t option \<Rightarrow> c_int \<Rightarrow> uint8_t \<Rightarrow> uint16_t \<Rightarrow> modbus" where
  "sample_modbus new rc b w =
     \<lparr>modbus_new_tcp = (\<lambda>h address port. new),
      modbus_connect = (\<lambda>h ctx. rc),
      modbus_read_bits = (\<lambda>h ctx addr nb. (rc, b)),
      modbus_read_input_bits = (\<lambda>h ctx addr nb. (rc, b)),
      modbus_read_input_registers = (\<lambda>h ctx addr nb. (rc, w)),
      modbus_read_registers = (\<lambda>h ctx addr nb. (rc, w)),
      modbus_write_bit = (\<lambda>h ctx addr v. rc),
      modbus_write_register = (\<lambda>h ctx addr v. rc)\<rparr>"

definition open_state :: "model_t \<Rightarrow> state" where
  "open_state model = \<lparr>g_ctx = Some 7, g_model = model, calls = []\<rparr>"

lemmas reg_consts =
  REG_COIL_STATUS_def REG_INPUT_STATUS_def REG_INPUT_def REG_HOLDING_def
  MODEL_MEGA_def MODEL_INVERTER_def

lemmas accessor_defs =
  thermia_modbus_read_register_bit_def thermia_modbus_read_register_int_def
  thermia_modbus_write_register_bit_def thermia_modbus_write_register_int_def

lemmas sample_defs =
  sample_registers_def sample_modbus_def open_state_def initial_state_def

section \<open>Lookup\<close>

lemma find_register_find:
  "find_register regs name type =
     List.find (\<lambda>r. reg_name r = name \<and> reg_type r AND type \<noteq> 0) regs"
  by (induction regs) auto

lemma find_register_None_iff:
  "find_register regs name type = None \<longleftrightarrow>
     (\<forall>r\<in>set regs. reg_name r = name \<longrightarrow> reg_type r AND type = 0)"
  by (induction regs) auto

lemma sample_find_coil:
  "find_register sample_registers ''enableHeatpumpResetAllAlarms''
     (REG_COIL_STATUS OR REG_INPUT_STATUS) = Some (sample_registers ! 2)"
  "find_register sample_registers ''enableHeatpumpResetAllAlarms'' REG_COIL_STATUS
     = Some (sample_registers ! 2)"
  by (simp_all add: sample_registers_def reg_consts)

lemma sample_find_holding:
  "find_register sample_registers ''sampleMegaSetpoint'' (REG_INPUT OR REG_HOLDING)
     = Some (sample_registers ! 4)"
  "find_register sample_registers ''sampleMegaSetpoint'' REG_HOLDING
     = Some (sample_registers ! 4)"
  by (simp_all add: sample_registers_def reg_consts)

lemma sample_names_distinct: "distinct (map reg_name sample_registers)"
  by (simp add: sample_registers_def)

lemma sample_unique:
  "r \<in> set sample_registers \<Longrightarrow>
     \<forall>r'\<in>set sample_registers. reg_name r' = reg_name r \<longrightarrow> r' = r"
  using sample_names_distinct by (auto simp: distinct_map inj_on_def)

text \<open>
  C5. The lookup returns the entry at the least index whose name equals the requested
  name and whose type shares a bit with the requested mask, and it returns nothing
  exactly when no entry of the table satisfies both conditions. The lookup is a function
  of the table and its two arguments alone: it reads no session state, so a repeated
  call on the unchanged table returns the same descriptor.
\<close>

theorem find_register_first_match:
  "(find_register regs name type = Some r \<longleftrightarrow>
      (\<exists>i<length regs. regs ! i = r \<and> reg_name (regs ! i) = name
          \<and> reg_type (regs ! i) AND type \<noteq> 0
          \<and> (\<forall>j<i. \<not> (reg_name (regs ! j) = name \<and> reg_type (regs ! j) AND type \<noteq> 0))))
   \<and> (find_register regs name type = None \<longleftrightarrow>
      (\<forall>i<length regs. \<not> (reg_name (regs ! i) = name \<and> reg_type (regs ! i) AND type \<noteq> 0)))"
  unfolding find_register_find find_Some_iff find_None_iff
  by (auto simp: in_set_conv_nth)

theorem find_register_first_match_witness:
  "find_register sample_registers ''sampleMegaSetpoint'' (REG_INPUT OR REG_HOLDING)
     = Some (sample_registers ! 4)
   \<and> (\<exists>i<length sample_registers. sample_registers ! i = sample_registers ! 4
         \<and> reg_name (sample_registers ! i) = ''sampleMegaSetpoint''
         \<and> reg_type (sample_registers ! i) AND (REG_INPUT OR REG_HOLDING) \<noteq> 0
         \<and> (\<forall>j<i. \<not> (reg_name (sample_registers ! j) = ''sampleMegaSetpoint''
                      \<and> reg_type (sample_registers ! j) AND (REG_INPUT OR REG_HOLDING) \<noteq> 0)))"
proof -
  have h: "find_register sample_registers ''sampleMegaSetpoint'' (REG_INPUT OR REG_HOLDING)
             = Some (sample_registers ! 4)"
    by (simp add: sample_registers_def reg_consts)
  from find_register_first_match [THEN conjunct1, THEN iffD1, OF h] h
  show ?thesis by (rule conjI [rotated])
qed

section \<open>Guards of the accessors\<close>

text \<open>
  C9. With no open session (\<^verbatim>\<open>g_ctx == NULL\<close>) each of the four accessors fails with the
  diagnostic "not initialised/connected", whatever the name: the check of \<^verbatim>\<open>g_ctx\<close> comes
  before the lookup. The state, and with it the log of library calls, is unchanged, and
  so is the output location of the two reads.
\<close>

theorem closed_session_not_initialised:
  assumes "g_ctx s = None"
  shows "thermia_modbus_read_register_bit lib regs s name b = (Inl Not_initialised, b, s)
       \<and> thermia_modbus_read_register_int lib regs s name v = (Inl Not_initialised, v, s)
       \<and> thermia_modbus_write_register_bit lib regs s name b = (Inl Not_initialised, s)
       \<and> thermia_modbus_write_register_int lib regs s name v = (Inl Not_initialised, s)"
  using assms by (simp add: accessor_defs)

theorem closed_session_not_initialised_witness:
  "g_ctx initial_state = None
   \<and> thermia_modbus_read_register_bit (sample_modbus (Some 7) 1 1 5) sample_registers
        initial_state ''noSuchRegister'' False = (Inl Not_initialised, False, initial_state)
   \<and> thermia_modbus_read_register_int (sample_modbus (Some 7) 1 1 5) sample_registers
        initial_state ''noSuchRegister'' 0 = (Inl Not_initialised, 0, initial_state)
   \<and> thermia_modbus_write_register_bit (sample_modbus (Some 7) 1 1 5) sample_registers
        initial_state ''noSuchRegister'' False = (Inl Not_initialised, initial_state)
   \<and> thermia_modbus_write_register_int (sample_modbus (Some 7) 1 1 5) sample_registers
        initial_state ''noSuchRegister'' 0 = (Inl Not_initialised, initial_state)"
proof -
  have h: "g_ctx initial_state = None"
    by (simp add: initial_state_def)
  show ?thesis
    by (rule conjI [OF h closed_session_not_initialised [OF h]])
qed

text \<open>
  C1. In an open session, when the name resolves under the accessor's type mask to a
  register whose model flags share no bit with \<^verbatim>\<open>g_model\<close>, each of the four accessors
  fails with the diagnostic "not supported by model". The state returned is the state
  given, so the log of library calls has not grown: no library function was called. The
  output location of the two reads keeps its content.
\<close>

theorem unsupported_model_fails_before_io:
  assumes "g_ctx s = Some ctx"
  shows "(\<forall>reg. find_register regs name (REG_COIL_STATUS OR REG_INPUT_STATUS) = Some reg
              \<and> reg_model reg AND g_model s = 0 \<longrightarrow>
            thermia_modbus_read_register_bit lib regs s name b
              = (Inl (Register_not_supported name), b, s))
       \<and> (\<forall>reg. find_register regs name (REG_INPUT OR REG_HOLDING) = Some reg
              \<and> reg_model reg AND g_model s = 0 \<longrightarrow>
            thermia_modbus_read_register_int lib regs s name v
              = (Inl (Register_not_supported name), v, s))
       \<and> (\<forall>reg. find_register regs name REG_COIL_STATUS = Some reg
              \<and> reg_model reg AND g_model s = 0 \<longrightarrow>
            thermia_modbus_write_register_bit lib regs s name b
              = (Inl (Register_not_supported name), s))
       \<and> (\<forall>reg. find_register regs name REG_HOLDING = Some reg
              \<and> reg_model reg AND g_model s = 0 \<longrightarrow>
            thermia_modbus_write_register_int lib regs s name v
              = (Inl (Register_not_supported name), s))"
  using assms by (simp add: accessor_defs is_register_supported_def)

theorem unsupported_model_fails_before_io_witness:
  "g_ctx (open_state MODEL_INVERTER) = Some 7
   \<and> find_register sample_registers ''enableHeatpumpResetAllAlarms''
        (REG_COIL_STATUS OR REG_INPUT_STATUS) = Some (sample_registers ! 2)
   \<and> find_register sample_registers ''enableHeatpumpResetAllAlarms'' REG_COIL_STATUS
        = Some (sample_registers ! 2)
   \<and> reg_model (sample_registers ! 2) AND g_model (open_state MODEL_INVERTER) = 0
   \<and> find_register sample_registers ''sampleMegaSetpoint'' (REG_INPUT OR REG_HOLDING)
        = Some (sample_registers ! 4)
   \<and> find_register sample_registers ''sampleMegaSetpoint'' REG_HOLDING
        = Some (sample_registers ! 4)
   \<and> reg_model (sample_registers ! 4) AND g_model (open_state MODEL_INVERTER) = 0
   \<and> thermia_modbus_read_register_bit (sample_modbus (Some 7) 1 1 5) sample_registers
        (open_state MODEL_INVERTER) ''enableHeatpumpResetAllAlarms'' False
        = (Inl (Register_not_supported ''enableHeatpumpResetAllAlarms''), False,
           open_state MODEL_INVERTER)
   \<and> thermia_modbus_write_register_bit (sample_modbus (Some 7) 1 1 5) sample_registers
        (open_state MODEL_INVERTER) ''enableHeatpumpResetAllAlarms'' True
        = (Inl (Register_not_supported ''enableHeatpumpResetAllAlarms''),
           open_state MODEL_INVERTER)
   \<and> thermia_modbus_read_register_int (sample_modbus (Some 7) 1 1 5) sample_registers
        (open_state MODEL_INVERTER) ''sampleMegaSetpoint'' 0
        = (Inl (Register_not_supported ''sampleMegaSetpoint''), 0, open_state MODEL_INVERTER)
   \<and> thermia_modbus_write_register_int (sample_modbus (Some 7) 1 1 5) sample_registers
        (open_state MODEL_INVERTER) ''sampleMegaSetpoint'' 220
        = (Inl (Register_not_supported ''sampleMegaSetpoint''), open_state MODEL_INVERTER)"
proof -
  have h: "g_ctx (open_state MODEL_INVERTER) = Some 7"
    by (simp add: open_state_def)
  have m2: "reg_model (sample_registers ! 2) AND g_model (open_state MODEL_INVERTER) = 0"
    by (simp add: sample_registers_def open_state_def reg_consts)
  have m4: "reg_model (sample_registers ! 4) AND g_model (open_state MODEL_INVERTER) = 0"
    by (simp add: sample_registers_def open_state_def reg_consts)
  note coil = unsupported_model_fails_before_io [where regs = sample_registers
      and name = "''enableHeatpumpResetAllAlarms''", OF h]
  note holding = unsupported_model_fails_before_io [where regs = sample_registers
      and name = "''sampleMegaSetpoint''", OF h]
  show ?thesis
    using h m2 m4 sample_find_coil sample_find_holding coil holding by blast
qed

text \<open>
  C3. In an open session, for a table entry of type \<^verbatim>\<open>REG_INPUT\<close> whose name no other
  entry carries, writing an integer under that name fails with the diagnostic "not
  found"; likewise writing a bit under the name of a \<^verbatim>\<open>REG_INPUT_STATUS\<close> entry. A name
  that is in no entry of the table gets the same diagnostic, and in all these cases the
  state is returned as given.
\<close>

theorem write_rejects_read_only_kinds:
  assumes "g_ctx s = Some ctx" and "r \<in> set regs"
    and "\<forall>r'\<in>set regs. reg_name r' = reg_name r \<longrightarrow> r' = r"
  shows "(reg_type r = REG_INPUT \<longrightarrow>
            thermia_modbus_write_register_int lib regs s (reg_name r) v
              = (Inl (Register_not_found (reg_name r)), s))
       \<and> (reg_type r = REG_INPUT_STATUS \<longrightarrow>
            thermia_modbus_write_register_bit lib regs s (reg_name r) b
              = (Inl (Register_not_found (reg_name r)), s))
       \<and> (name \<notin> reg_name ` set regs \<longrightarrow>
            thermia_modbus_write_register_int lib regs s name v
              = (Inl (Register_not_found name), s)
          \<and> thermia_modbus_write_register_bit lib regs s name b
              = (Inl (Register_not_found name), s))"
proof -
  have "find_register regs (reg_name r) REG_HOLDING = None" if "reg_type r = REG_INPUT"
    unfolding find_register_None_iff using assms(3) that by (auto simp: reg_consts)
  moreover have "find_register regs (reg_name r) REG_COIL_STATUS = None"
    if "reg_type r = REG_INPUT_STATUS"
    unfolding find_register_None_iff using assms(3) that by (auto simp: reg_consts)
  moreover have "find_register regs name type = None" if "name \<notin> reg_name ` set regs" for type
    unfolding find_register_None_iff using that by auto
  ultimately show ?thesis using assms(1)
    by (simp add: thermia_modbus_write_register_bit_def thermia_modbus_write_register_int_def)
qed

theorem write_rejects_read_only_kinds_witness:
  "g_ctx (open_state MODEL_MEGA) = Some 7
   \<and> sample_registers ! 3 \<in> set sample_registers
   \<and> reg_type (sample_registers ! 3) = REG_INPUT
   \<and> sample_registers ! 1 \<in> set sample_registers
   \<and> reg_type (sample_registers ! 1) = REG_INPUT_STATUS
   \<and> thermia_modbus_write_register_int (sample_modbus (Some 7) 1 1 5) sample_registers
        (open_state MODEL_MEGA) ''valueHeatpumpSoftwareVersionMajor'' 3
        = (Inl (Register_not_found ''valueHeatpumpSoftwareVersionMajor''), open_state MODEL_MEGA)
   \<and> thermia_modbus_write_register_bit (sample_modbus (Some 7) 1 1 5) sample_registers
        (open_state MODEL_MEGA) ''alarmHeatpumpBrineInSensor'' True
        = (Inl (Register_not_found ''alarmHeatpumpBrineInSensor''), open_state MODEL_MEGA)
   \<and> thermia_modbus_write_register_int (sample_modbus (Some 7) 1 1 5) sample_registers
        (open_state MODEL_MEGA) ''noSuchRegister'' 3
        = (Inl (Register_not_found ''noSuchRegister''), open_state MODEL_MEGA)"
proof -
  have h: "g_ctx (open_state MODEL_MEGA) = Some 7"
    by (simp add: open_state_def)
  have r3: "sample_registers ! 3 \<in> set sample_registers"
    and r1: "sample_registers ! 1 \<in> set sample_registers"
    by (simp_all add: sample_registers_def)
  have t3: "reg_type (sample_registers ! 3) = REG_INPUT"
    and t1: "reg_type (sample_registers ! 1) = REG_INPUT_STATUS"
    by (simp_all add: sample_registers_def)
  have n3: "reg_name (sample_registers ! 3) = ''valueHeatpumpSoftwareVersionMajor''"
    and n1: "reg_name (sample_registers ! 1) = ''alarmHeatpumpBrineInSensor''"
    by (simp_all add: sample_registers_def)
  have absent: "''noSuchRegister'' \<notin> reg_name ` set sample_registers"
    by (simp add: sample_registers_def)
  note int = write_rejects_read_only_kinds [where name = "''noSuchRegister''",
      OF h r3 sample_unique [OF r3], unfolded n3]
  note bit = write_rejects_read_only_kinds [where name = "''noSuchRegister''",
      OF h r1 sample_unique [OF r1], unfolded n1]
  show ?thesis
    using h r3 r1 t3 t1 absent int bit by blast
qed

section \<open>Values on the wire\<close>

lemma sint_scast16: "sint (scast (w :: uint16_t) :: c_int) = sint w"
  by (simp add: sint_up_scast is_up)

lemma uint_ucast16_signed: "uint (ucast (v :: c_int) :: uint16_t) = sint v mod 2 ^ 16"
proof -
  have "uint (ucast v :: uint16_t) = take_bit 16 (uint v)"
    by (simp add: unsigned_ucast_eq)
  also have "\<dots> = take_bit 16 (signed_take_bit 31 (uint v))"
    by (simp add: take_bit_signed_take_bit)
  also have "\<dots> = take_bit 16 (sint v)"
    by (simp add: sint_uint)
  finally show ?thesis by (simp add: take_bit_eq_mod)
qed

lemma uint_ucast16_unsigned: "uint (ucast (v :: c_int) :: uint16_t) = uint v mod 2 ^ 16"
  by (simp add: unsigned_ucast_eq take_bit_eq_mod)

lemma sample_read_int:
  "thermia_modbus_read_register_int (sample_modbus (Some 7) 1 1 w) sample_registers
     (open_state MODEL_MEGA) ''valueHeatpumpBrineInTemperature'' 0
   = (Inr (), scast w, invoke (Modbus_read_registers 7 100 1) (open_state MODEL_MEGA))"
  by (simp add: thermia_modbus_read_register_int_def sample_defs invoke_def
      is_register_supported_def reg_consts)

lemma sample_supported_brine:
  "g_ctx (open_state MODEL_MEGA) = Some 7"
  "find_register sample_registers ''valueHeatpumpBrineInTemperature'' REG_HOLDING
     = Some (sample_registers ! 0)"
  "is_register_supported (open_state MODEL_MEGA) (sample_registers ! 0)"
  "reg_address (sample_registers ! 0) = 100"
  by (simp_all add: sample_defs is_register_supported_def reg_consts)

text \<open>
  C2. Reading an integer register succeeds exactly when the session is open, the name
  resolves under the mask \<^verbatim>\<open>REG_INPUT | REG_HOLDING\<close>, the register is supported by the
  model and the library read (of input registers for type \<^verbatim>\<open>REG_INPUT\<close>, of holding
  registers otherwise) returns a code other than \<open>-1\<close>. The value stored is then the
  16-bit word \<open>w\<close> delivered by the library, sign-extended: read as two's complement it
  equals \<open>w\<close> read as two's complement, so \<open>0xFFF6\<close> is stored as \<open>-10\<close> and \<open>0x0005\<close>
  as \<open>5\<close>.
\<close>

theorem read_int_sign_extension:
  "thermia_modbus_read_register_int lib regs s name value = (Inr (), value', s') \<longleftrightarrow>
     (\<exists>ctx reg rc w.
        g_ctx s = Some ctx
        \<and> find_register regs name (REG_INPUT OR REG_HOLDING) = Some reg
        \<and> is_register_supported s reg
        \<and> (if reg_type reg = REG_INPUT
            then modbus_read_input_registers lib (calls s) ctx (reg_address reg) 1
            else modbus_read_registers lib (calls s) ctx (reg_address reg) 1) = (rc, w)
        \<and> rc \<noteq> - 1
        \<and> s' = invoke (if reg_type reg = REG_INPUT
                        then Modbus_read_input_registers ctx (reg_address reg) 1
                        else Modbus_read_registers ctx (reg_address reg) 1) s
        \<and> value' = scast w \<and> sint value' = sint w
        \<and> (w = 0xFFF6 \<longrightarrow> sint value' = - 10) \<and> (w = 0x0005 \<longrightarrow> sint value' = 5))"
  (is "?L \<longleftrightarrow> ?R")
proof
  assume ?L
  then show ?R
    by (auto simp: thermia_modbus_read_register_int_def sint_scast16 Let_def
        split: option.splits if_splits prod.splits)
next
  assume ?R
  then show ?L
    by (auto simp: thermia_modbus_read_register_int_def Let_def split: prod.splits)
qed

theorem read_int_sign_extension_witness:
  "thermia_modbus_read_register_int (sample_modbus (Some 7) 1 1 0xFFF6) sample_registers
     (open_state MODEL_MEGA) ''valueHeatpumpBrineInTemperature'' 0
     = (Inr (), - 10, invoke (Modbus_read_registers 7 100 1) (open_state MODEL_MEGA))
   \<and> sint (- 10 :: c_int) = - 10
   \<and> thermia_modbus_read_register_int (sample_modbus (Some 7) 1 1 0x0005) sample_registers
     (open_state MODEL_MEGA) ''valueHeatpumpBrineInTemperature'' 0
     = (Inr (), 5, invoke (Modbus_read_registers 7 100 1) (open_state MODEL_MEGA))
   \<and> sint (5 :: c_int) = 5"
proof -
  have a: "thermia_modbus_read_register_int (sample_modbus (Some 7) 1 1 0xFFF6) sample_registers
     (open_state MODEL_MEGA) ''valueHeatpumpBrineInTemperature'' 0
     = (Inr (), - 10, invoke (Modbus_read_registers 7 100 1) (open_state MODEL_MEGA))"
    using sample_read_int [of "0xFFF6"] by simp
  have b: "thermia_modbus_read_register_int (sample_modbus (Some 7) 1 1 0x0005) sample_registers
     (open_state MODEL_MEGA) ''valueHeatpumpBrineInTemperature'' 0
     = (Inr (), 5, invoke (Modbus_read_registers 7 100 1) (open_state MODEL_MEGA))"
    using sample_read_int [of "0x0005"] by simp
  from read_int_sign_extension [THEN iffD1, OF a]
  obtain w :: uint16_t where w: "w = 0xFFF6 \<longrightarrow> sint (- 10 :: c_int) = - 10"
      and "\<exists>rc. modbus_read_registers (sample_modbus (Some 7) 1 1 0xFFF6) [] 7 100 1 = (rc, w)"
    by (auto simp: sample_registers_def open_state_def reg_consts split: if_splits)
  then have "w = 0xFFF6" by (simp add: sample_modbus_def)
  with w have m: "sint (- 10 :: c_int) = - 10" by blast
  from read_int_sign_extension [THEN iffD1, OF b]
  obtain w' :: uint16_t where w': "w' = 0x0005 \<longrightarrow> sint (5 :: c_int) = 5"
      and "\<exists>rc. modbus_read_registers (sample_modbus (Some 7) 1 1 0x0005) [] 7 100 1 = (rc, w')"
    by (auto simp: sample_registers_def open_state_def reg_consts split: if_splits)
  then have "w' = 0x0005" by (simp add: sample_modbus_def)
  with w' have p: "sint (5 :: c_int) = 5" by blast
  from a m b p show ?thesis by blast
qed

text \<open>
  C7. When an integer write reaches the wire (open session, name resolved as a holding
  register, register supported by the model), the one library call it makes is
  \<^verbatim>\<open>modbus_write_register\<close> at the register's address with a 16-bit word whose unsigned
  value is the caller's \<^verbatim>\<open>int\<close> modulo \<open>2^16\<close>, whether the \<^verbatim>\<open>int\<close> is read as signed
  or as its 32-bit pattern, and whatever its sign or size.
\<close>

theorem write_int_truncates_to_16_bits:
  assumes "g_ctx s = Some ctx" and "find_register regs name REG_HOLDING = Some reg"
    and "is_register_supported s reg"
  shows "\<exists>w. calls (snd (thermia_modbus_write_register_int lib regs s name value))
               = calls s @ [Modbus_write_register ctx (reg_address reg) w]
             \<and> uint w = sint value mod 2 ^ 16
             \<and> uint w = uint value mod 2 ^ 16"
proof -
  have "calls (snd (thermia_modbus_write_register_int lib regs s name value))
          = calls s @ [Modbus_write_register ctx (reg_address reg) (ucast value)]"
    using assms by (simp add: thermia_modbus_write_register_int_def Let_def invoke_def)
  moreover have "uint (ucast value :: uint16_t) = sint value mod 2 ^ 16"
    by (rule uint_ucast16_signed)
  moreover have "uint (ucast value :: uint16_t) = uint value mod 2 ^ 16"
    by (rule uint_ucast16_unsigned)
  ultimately show ?thesis by blast
qed

theorem write_int_truncates_to_16_bits_witness:
  "g_ctx (open_state MODEL_MEGA) = Some 7
   \<and> find_register sample_registers ''valueHeatpumpBrineInTemperature'' REG_HOLDING
        = Some (sample_registers ! 0)
   \<and> is_register_supported (open_state MODEL_MEGA) (sample_registers ! 0)
   \<and> calls (snd (thermia_modbus_write_register_int (sample_modbus (Some 7) 1 1 5)
        sample_registers (open_state MODEL_MEGA) ''valueHeatpumpBrineInTemperature'' (- 10)))
        = [Modbus_write_register 7 100 0xFFF6]
   \<and> calls (snd (thermia_modbus_write_register_int (sample_modbus (Some 7) 1 1 5)
        sample_registers (open_state MODEL_MEGA) ''valueHeatpumpBrineInTemperature'' 70000))
        = [Modbus_write_register 7 100 4464]"
proof -
  note h = sample_supported_brine(1-3)
  have c: "calls (open_state MODEL_MEGA) = []"
    by (simp add: open_state_def)
  from write_int_truncates_to_16_bits [OF h, of "sample_modbus (Some 7) 1 1 5" "- 10"]
  obtain w :: uint16_t where
    "calls (snd (thermia_modbus_write_register_int (sample_modbus (Some 7) 1 1 5)
        sample_registers (open_state MODEL_MEGA) ''valueHeatpumpBrineInTemperature'' (- 10)))
        = [Modbus_write_register 7 100 w]" and "uint w = 65526"
    by (auto simp: c sample_supported_brine(4))
  moreover from this have "w = 0xFFF6"
    by (simp add: word_uint_eq_iff)
  moreover
  from write_int_truncates_to_16_bits [OF h, of "sample_modbus (Some 7) 1 1 5" 70000]
  obtain w' :: uint16_t where
    "calls (snd (thermia_modbus_write_register_int (sample_modbus (Some 7) 1 1 5)
        sample_registers (open_state MODEL_MEGA) ''valueHeatpumpBrineInTemperature'' 70000))
        = [Modbus_write_register 7 100 w']" and "uint w' = 4464"
    by (auto simp: c sample_supported_brine(4))
  moreover from this have "w' = 4464"
    by (simp add: word_uint_eq_iff)
  ultimately show ?thesis using h by simp
qed

section \<open>Output location of the reads\<close>

text \<open>
  C10. When a read fails, whichever of the four diagnostics it prints (not initialised,
  not found, not supported by model, failed to read), the location behind the pointer
  \<^verbatim>\<open>value\<close> holds after the call what it held before.
\<close>

theorem read_output_only_on_success:
  "(\<forall>e b' s'. thermia_modbus_read_register_bit lib regs s name b = (Inl e, b', s') \<longrightarrow>
       b' = b \<and> e \<in> {Not_initialised, Register_not_found name, Register_not_supported name,
                      Failed_to_read_bit})
   \<and> (\<forall>e v' s'. thermia_modbus_read_register_int lib regs s name v = (Inl e, v', s') \<longrightarrow>
       v' = v \<and> e \<in> {Not_initialised, Register_not_found name, Register_not_supported name,
                      Failed_to_read_int})"
  by (auto simp: thermia_modbus_read_register_bit_def thermia_modbus_read_register_int_def Let_def
      split: option.splits if_splits prod.splits)

theorem read_output_only_on_success_witness:
  "fst (thermia_modbus_read_register_bit (sample_modbus (Some 7) (- 1) 0 5) sample_registers
          (open_state MODEL_MEGA) ''alarmHeatpumpBrineInSensor'' True) = Inl Failed_to_read_bit
   \<and> fst (snd (thermia_modbus_read_register_bit (sample_modbus (Some 7) (- 1) 0 5)
          sample_registers (open_state MODEL_MEGA) ''alarmHeatpumpBrineInSensor'' True)) = True
   \<and> fst (thermia_modbus_read_register_int (sample_modbus (Some 7) (- 1) 0 5) sample_registers
          (open_state MODEL_MEGA) ''valueHeatpumpBrineInTemperature'' 123) = Inl Failed_to_read_int
   \<and> fst (snd (thermia_modbus_read_register_int (sample_modbus (Some 7) (- 1) 0 5)
          sample_registers (open_state MODEL_MEGA) ''valueHeatpumpBrineInTemperature'' 123)) = 123"
proof -
  let ?B = "thermia_modbus_read_register_bit (sample_modbus (Some 7) (- 1) 0 5) sample_registers
          (open_state MODEL_MEGA) ''alarmHeatpumpBrineInSensor'' True"
  let ?I = "thermia_modbus_read_register_int (sample_modbus (Some 7) (- 1) 0 5) sample_registers
          (open_state MODEL_MEGA) ''valueHeatpumpBrineInTemperature'' 123"
  have b: "fst ?B = Inl Failed_to_read_bit"
    by (simp add: thermia_modbus_read_register_bit_def sample_defs invoke_def
        is_register_supported_def reg_consts)
  have i: "fst ?I = Inl Failed_to_read_int"
    by (simp add: thermia_modbus_read_register_int_def sample_defs invoke_def
        is_register_supported_def reg_consts)
  have "?B = (Inl Failed_to_read_bit, fst (snd ?B), snd (snd ?B))"
    using b by (metis prod.collapse)
  with read_output_only_on_success [THEN conjunct1, rule_format]
  have "fst (snd ?B) = True" by blast
  moreover
  have "?I = (Inl Failed_to_read_int, fst (snd ?I), snd (snd ?I))"
    using i by (metis prod.collapse)
  with read_output_only_on_success [THEN conjunct2, rule_format]
  have "fst (snd ?I) = 123" by blast
  ultimately show ?thesis using b i by blast
qed

section \<open>Session state\<close>

lemma invoke_frame:
  "g_ctx (invoke c s) = g_ctx s" "g_model (invoke c s) = g_model s"
  "calls (invoke c s) = calls s @ [c]"
  by (simp_all add: invoke_def)

lemma read_bit_frame:
  "g_ctx (snd (snd (thermia_modbus_read_register_bit lib regs s name b))) = g_ctx s
   \<and> g_model (snd (snd (thermia_modbus_read_register_bit lib regs s name b))) = g_model s"
  by (simp add: thermia_modbus_read_register_bit_def Let_def invoke_frame
      split: option.splits prod.splits)

lemma read_int_frame:
  "g_ctx (snd (snd (thermia_modbus_read_register_int lib regs s name v))) = g_ctx s
   \<and> g_model (snd (snd (thermia_modbus_read_register_int lib regs s name v))) = g_model s"
  by (simp add: thermia_modbus_read_register_int_def Let_def invoke_frame
      split: option.splits prod.splits)

lemma write_bit_frame:
  "g_ctx (snd (thermia_modbus_write_register_bit lib regs s name b)) = g_ctx s
   \<and> g_model (snd (thermia_modbus_write_register_bit lib regs s name b)) = g_model s"
  by (simp add: thermia_modbus_write_register_bit_def Let_def invoke_frame split: option.splits)

lemma write_int_frame:
  "g_ctx (snd (thermia_modbus_write_register_int lib regs s name v)) = g_ctx s
   \<and> g_model (snd (thermia_modbus_write_register_int lib regs s name v)) = g_model s"
  by (simp add: thermia_modbus_write_register_int_def Let_def invoke_frame split: option.splits)

lemma read_bit_failed:
  "thermia_modbus_read_register_bit lib regs s name b = (Inl Failed_to_read_bit, b', s') \<Longrightarrow>
     g_ctx s \<noteq> None \<and> (\<exists>c. s' = invoke c s)"
  by (auto simp: thermia_modbus_read_register_bit_def Let_def
      split: option.splits if_splits prod.splits)

lemma read_int_failed:
  "thermia_modbus_read_register_int lib regs s name v = (Inl Failed_to_read_int, v', s') \<Longrightarrow>
     g_ctx s \<noteq> None \<and> (\<exists>c. s' = invoke c s)"
  by (auto simp: thermia_modbus_read_register_int_def Let_def
      split: option.splits if_splits prod.splits)

lemma write_bit_failed:
  "thermia_modbus_write_register_bit lib regs s name b = (Inl Failed_to_write_bit, s') \<Longrightarrow>
     g_ctx s \<noteq> None \<and> (\<exists>c. s' = invoke c s)"
  by (auto simp: thermia_modbus_write_register_bit_def Let_def
      split: option.splits if_splits)

lemma write_int_failed:
  "thermia_modbus_write_register_int lib regs s name v = (Inl Failed_to_write_int, s') \<Longrightarrow>
     g_ctx s \<noteq> None \<and> (\<exists>c. s' = invoke c s)"
  by (auto simp: thermia_modbus_write_register_int_def Let_def
      split: option.splits if_splits)

lemma open_session_passes_check:
  assumes "g_ctx s \<noteq> None"
  shows "fst (thermia_modbus_read_register_bit lib regs s name b) \<noteq> Inl Not_initialised"
    and "fst (thermia_modbus_read_register_int lib regs s name v) \<noteq> Inl Not_initialised"
    and "fst (thermia_modbus_write_register_bit lib regs s name b) \<noteq> Inl Not_initialised"
    and "fst (thermia_modbus_write_register_int lib regs s name v) \<noteq> Inl Not_initialised"
  using assms
  by (auto simp: accessor_defs Let_def invoke_frame split: option.splits prod.splits)

lemma open_when_open:
  "g_ctx s \<noteq> None \<Longrightarrow> thermia_modbus_open lib s address port model = (Inl Initialised_already, s)"
  by (auto simp: thermia_modbus_open_def)

lemma close_closes: "g_ctx (thermia_modbus_close s) = None"
  by (simp add: thermia_modbus_close_def split: option.splits)

lemma close_closed: "g_ctx s = None \<Longrightarrow> thermia_modbus_close s = s"
  by (simp add: thermia_modbus_close_def)

lemma close_open:
  "g_ctx s = Some ctx \<Longrightarrow>
     thermia_modbus_close s
       = s\<lparr>g_ctx := None, calls := calls s @ [Modbus_close ctx, Modbus_free ctx]\<rparr>"
  by (simp add: thermia_modbus_close_def invoke_def)

lemma close_funpow: "(thermia_modbus_close ^^ Suc n) s = thermia_modbus_close s"
  by (induction n) (simp_all add: close_closed close_closes)

lemma open_success:
  assumes "g_ctx s = None" and "thermia_modbus_open lib s address port model = (Inr (), s')"
  shows "g_ctx s' \<noteq> None \<and> g_ctx s' = modbus_new_tcp lib (calls s) address port
         \<and> g_model s' = model
         \<and> (\<exists>ctx. calls s' = calls s @ [Modbus_new_tcp address port, Modbus_set_slave ctx 1,
                                        Modbus_connect ctx])"
  using assms
  by (auto simp: thermia_modbus_open_def Let_def invoke_def split: option.splits if_splits)

lemma open_failure:
  assumes "g_ctx s = None" and "thermia_modbus_open lib s address port model = (Inl e, s')"
  shows "g_ctx s' = None \<and> e \<in> {Initialisation_failed, Connection_failed}"
  using assms
  by (auto simp: thermia_modbus_open_def Let_def invoke_def split: option.splits if_splits)

lemma open_success_iff:
  "fst (thermia_modbus_open lib s address port model) = Inr () \<longleftrightarrow>
     g_ctx s = None
     \<and> (\<exists>ctx. modbus_new_tcp lib (calls s) address port = Some ctx
           \<and> modbus_connect lib
                 (calls s @ [Modbus_new_tcp address port, Modbus_set_slave ctx 1]) ctx \<noteq> - 1)"
  by (auto simp: thermia_modbus_open_def Let_def invoke_def split: option.splits)

lemma sample_failed_read_int:
  "thermia_modbus_read_register_int (sample_modbus (Some 7) (- 1) 0 5) sample_registers
     (open_state MODEL_MEGA) ''valueHeatpumpBrineInTemperature'' 123
   = (Inl Failed_to_read_int, 123,
      invoke (Modbus_read_registers 7 100 1) (open_state MODEL_MEGA))"
  by (simp add: thermia_modbus_read_register_int_def sample_defs invoke_def
      is_register_supported_def reg_consts)

lemma sample_failed_write_bit:
  "thermia_modbus_write_register_bit (sample_modbus (Some 7) (- 1) 0 5) sample_registers
     (open_state MODEL_MEGA) ''enableHeatpumpResetAllAlarms'' True
   = (Inl Failed_to_write_bit, invoke (Modbus_write_bit 7 50 1) (open_state MODEL_MEGA))"
  by (simp add: thermia_modbus_write_register_bit_def sample_defs invoke_def
      is_register_supported_def reg_consts)

text \<open>
  C6. None of the four accessors changes \<^verbatim>\<open>g_ctx\<close> or \<^verbatim>\<open>g_model\<close>, whatever its
  outcome. When an accessor fails with a "failed to read" or "failed to write"
  diagnostic (the library call returned \<open>-1\<close>), the session was open, the state after
  the call is the state before it with one more library call in the log, and the session
  is still open: a following accessor call passes the check of \<^verbatim>\<open>g_ctx\<close>. From an open
  session, the accessors and \<^verbatim>\<open>thermia_modbus_open\<close> leave \<^verbatim>\<open>g_ctx\<close> as it is;
  \<^verbatim>\<open>thermia_modbus_close\<close> sets it to \<^verbatim>\<open>NULL\<close>.
\<close>

theorem wire_failure_keeps_session:
  "(thermia_modbus_read_register_bit lib regs s name b = (Inl Failed_to_read_bit, b', s1) \<longrightarrow>
      g_ctx s1 = g_ctx s \<and> g_model s1 = g_model s \<and> g_ctx s1 \<noteq> None \<and> (\<exists>c. s1 = invoke c s))
   \<and> (thermia_modbus_read_register_int lib regs s name v = (Inl Failed_to_read_int, v', s2) \<longrightarrow>
      g_ctx s2 = g_ctx s \<and> g_model s2 = g_model s \<and> g_ctx s2 \<noteq> None \<and> (\<exists>c. s2 = invoke c s))
   \<and> (thermia_modbus_write_register_bit lib regs s name b = (Inl Failed_to_write_bit, s3) \<longrightarrow>
      g_ctx s3 = g_ctx s \<and> g_model s3 = g_model s \<and> g_ctx s3 \<noteq> None \<and> (\<exists>c. s3 = invoke c s))
   \<and> (thermia_modbus_write_register_int lib regs s name v = (Inl Failed_to_write_int, s4) \<longrightarrow>
      g_ctx s4 = g_ctx s \<and> g_model s4 = g_model s \<and> g_ctx s4 \<noteq> None \<and> (\<exists>c. s4 = invoke c s))
   \<and> g_ctx (snd (snd (thermia_modbus_read_register_bit lib regs s name b))) = g_ctx s
   \<and> g_model (snd (snd (thermia_modbus_read_register_bit lib regs s name b))) = g_model s
   \<and> g_ctx (snd (snd (thermia_modbus_read_register_int lib regs s name v))) = g_ctx s
   \<and> g_model (snd (snd (thermia_modbus_read_register_int lib regs s name v))) = g_model s
   \<and> g_ctx (snd (thermia_modbus_write_register_bit lib regs s name b)) = g_ctx s
   \<and> g_model (snd (thermia_modbus_write_register_bit lib regs s name b)) = g_model s
   \<and> g_ctx (snd (thermia_modbus_write_register_int lib regs s name v)) = g_ctx s
   \<and> g_model (snd (thermia_modbus_write_register_int lib regs s name v)) = g_model s
   \<and> (g_ctx s \<noteq> None \<longrightarrow>
        fst (thermia_modbus_read_register_bit lib regs s name b) \<noteq> Inl Not_initialised
        \<and> fst (thermia_modbus_read_register_int lib regs s name v) \<noteq> Inl Not_initialised
        \<and> fst (thermia_modbus_write_register_bit lib regs s name b) \<noteq> Inl Not_initialised
        \<and> fst (thermia_modbus_write_register_int lib regs s name v) \<noteq> Inl Not_initialised
        \<and> g_ctx (snd (thermia_modbus_open lib s address port model)) = g_ctx s)
   \<and> g_ctx (thermia_modbus_close s) = None"
proof -
  have c1: "thermia_modbus_read_register_bit lib regs s name b = (Inl Failed_to_read_bit, b', s1) \<longrightarrow>
      g_ctx s1 = g_ctx s \<and> g_model s1 = g_model s \<and> g_ctx s1 \<noteq> None \<and> (\<exists>c. s1 = invoke c s)"
    using read_bit_failed [of lib regs s name b b' s1] by (auto simp: invoke_frame)
  have c2: "thermia_modbus_read_register_int lib regs s name v = (Inl Failed_to_read_int, v', s2) \<longrightarrow>
      g_ctx s2 = g_ctx s \<and> g_model s2 = g_model s \<and> g_ctx s2 \<noteq> None \<and> (\<exists>c. s2 = invoke c s)"
    using read_int_failed [of lib regs s name v v' s2] by (auto simp: invoke_frame)
  have c3: "thermia_modbus_write_register_bit lib regs s name b = (Inl Failed_to_write_bit, s3) \<longrightarrow>
      g_ctx s3 = g_ctx s \<and> g_model s3 = g_model s \<and> g_ctx s3 \<noteq> None \<and> (\<exists>c. s3 = invoke c s)"
    using write_bit_failed [of lib regs s name b s3] by (auto simp: invoke_frame)
  have c4: "thermia_modbus_write_register_int lib regs s name v = (Inl Failed_to_write_int, s4) \<longrightarrow>
      g_ctx s4 = g_ctx s \<and> g_model s4 = g_model s \<and> g_ctx s4 \<noteq> None \<and> (\<exists>c. s4 = invoke c s)"
    using write_int_failed [of lib regs s name v s4] by (auto simp: invoke_frame)
  have p: "g_ctx s \<noteq> None \<longrightarrow>
        fst (thermia_modbus_read_register_bit lib regs s name b) \<noteq> Inl Not_initialised
        \<and> fst (thermia_modbus_read_register_int lib regs s name v) \<noteq> Inl Not_initialised
        \<and> fst (thermia_modbus_write_register_bit lib regs s name b) \<noteq> Inl Not_initialised
        \<and> fst (thermia_modbus_write_register_int lib regs s name v) \<noteq> Inl Not_initialised
        \<and> g_ctx (snd (thermia_modbus_open lib s address port model)) = g_ctx s"
    by (simp add: open_session_passes_check open_when_open)
  show ?thesis
    by (intro conjI c1 c2 c3 c4 p close_closes
        read_bit_frame [THEN conjunct1] read_bit_frame [THEN conjunct2]
        read_int_frame [THEN conjunct1] read_int_frame [THEN conjunct2]
        write_bit_frame [THEN conjunct1] write_bit_frame [THEN conjunct2]
        write_int_frame [THEN conjunct1] write_int_frame [THEN conjunct2])
qed

theorem wire_failure_keeps_session_witness:
  "thermia_modbus_read_register_int (sample_modbus (Some 7) (- 1) 0 5) sample_registers
     (open_state MODEL_MEGA) ''valueHeatpumpBrineInTemperature'' 123
     = (Inl Failed_to_read_int, 123,
        invoke (Modbus_read_registers 7 100 1) (open_state MODEL_MEGA))
   \<and> g_ctx (invoke (Modbus_read_registers 7 100 1) (open_state MODEL_MEGA)) = Some 7
   \<and> g_model (invoke (Modbus_read_registers 7 100 1) (open_state MODEL_MEGA)) = MODEL_MEGA
   \<and> fst (thermia_modbus_write_register_bit (sample_modbus (Some 7) (- 1) 0 5) sample_registers
        (invoke (Modbus_read_registers 7 100 1) (open_state MODEL_MEGA))
        ''enableHeatpumpResetAllAlarms'' True) \<noteq> Inl Not_initialised
   \<and> thermia_modbus_write_register_bit (sample_modbus (Some 7) (- 1) 0 5) sample_registers
        (open_state MODEL_MEGA) ''enableHeatpumpResetAllAlarms'' True
     = (Inl Failed_to_write_bit, invoke (Modbus_write_bit 7 50 1) (open_state MODEL_MEGA))
   \<and> g_ctx (invoke (Modbus_write_bit 7 50 1) (open_state MODEL_MEGA)) = Some 7
   \<and> g_ctx (thermia_modbus_close (invoke (Modbus_write_bit 7 50 1) (open_state MODEL_MEGA)))
       = None"
proof -
  let ?lib = "sample_modbus (Some 7) (- 1) 0 5"
  let ?s = "open_state MODEL_MEGA"
  let ?sa = "invoke (Modbus_read_registers 7 100 1) ?s"
  let ?sb = "invoke (Modbus_write_bit 7 50 1) ?s"
  have o: "g_ctx ?s = Some 7" "g_model ?s = MODEL_MEGA"
    by (simp_all add: open_state_def)
  from sample_failed_read_int wire_failure_keeps_session
  have a: "g_ctx ?sa = g_ctx ?s \<and> g_model ?sa = g_model ?s \<and> g_ctx ?sa \<noteq> None"
    by blast
  from sample_failed_write_bit wire_failure_keeps_session
  have b: "g_ctx ?sb = g_ctx ?s \<and> g_ctx ?sb \<noteq> None"
    by blast
  from a wire_failure_keeps_session [of ?lib sample_registers ?sa
      "''enableHeatpumpResetAllAlarms''" True]
  have c: "fst (thermia_modbus_write_register_bit ?lib sample_registers ?sa
        ''enableHeatpumpResetAllAlarms'' True) \<noteq> Inl Not_initialised"
    by blast
  from wire_failure_keeps_session [of _ _ ?sb]
  have d: "g_ctx (thermia_modbus_close ?sb) = None"
    by blast
  from sample_failed_read_int sample_failed_write_bit a b c d o show ?thesis
    by simp
qed

text \<open>
  C4. Opening while \<^verbatim>\<open>g_ctx\<close> is set fails with "initialised already" and returns the
  state as given (handle, model and call log). From the closed state an open succeeds
  exactly when \<^verbatim>\<open>modbus_new_tcp\<close> returns a handle and \<^verbatim>\<open>modbus_connect\<close> does not
  return \<open>-1\<close>; the session is then open with that handle and the requested model. A
  failed open from the closed state ends in the closed state. Closing an open session
  calls \<^verbatim>\<open>modbus_close\<close> and \<^verbatim>\<open>modbus_free\<close> on the handle and clears \<^verbatim>\<open>g_ctx\<close>;
  closing a closed session changes nothing; any positive number of closes ends in the
  same closed state as one.
\<close>

theorem session_state_machine:
  "(g_ctx s \<noteq> None \<longrightarrow>
      thermia_modbus_open lib s address port model = (Inl Initialised_already, s))
   \<and> (fst (thermia_modbus_open lib s address port model) = Inr () \<longleftrightarrow>
        g_ctx s = None
        \<and> (\<exists>ctx. modbus_new_tcp lib (calls s) address port = Some ctx
              \<and> modbus_connect lib
                    (calls s @ [Modbus_new_tcp address port, Modbus_set_slave ctx 1]) ctx \<noteq> - 1))
   \<and> (g_ctx s = None \<and> thermia_modbus_open lib s address port model = (Inr (), s') \<longrightarrow>
        g_ctx s' \<noteq> None \<and> g_ctx s' = modbus_new_tcp lib (calls s) address port
        \<and> g_model s' = model)
   \<and> (g_ctx s = None \<and> thermia_modbus_open lib s address port model = (Inl e, s') \<longrightarrow>
        g_ctx s' = None \<and> e \<in> {Initialisation_failed, Connection_failed})
   \<and> (g_ctx s = Some ctx \<longrightarrow>
        thermia_modbus_close s
          = s\<lparr>g_ctx := None, calls := calls s @ [Modbus_close ctx, Modbus_free ctx]\<rparr>)
   \<and> (g_ctx s = None \<longrightarrow> thermia_modbus_close s = s)
   \<and> g_ctx ((thermia_modbus_close ^^ Suc n) s) = None
   \<and> (thermia_modbus_close ^^ Suc n) s = thermia_modbus_close s"
proof -
  have a: "g_ctx s \<noteq> None \<longrightarrow>
      thermia_modbus_open lib s address port model = (Inl Initialised_already, s)"
    by (simp add: open_when_open)
  have b: "g_ctx s = None \<and> thermia_modbus_open lib s address port model = (Inr (), s') \<longrightarrow>
        g_ctx s' \<noteq> None \<and> g_ctx s' = modbus_new_tcp lib (calls s) address port
        \<and> g_model s' = model"
    using open_success [of s lib address port model s'] by blast
  have c: "g_ctx s = None \<and> thermia_modbus_open lib s address port model = (Inl e, s') \<longrightarrow>
        g_ctx s' = None \<and> e \<in> {Initialisation_failed, Connection_failed}"
    using open_failure [of s lib address port model e s'] by blast
  have d: "g_ctx s = Some ctx \<longrightarrow>
        thermia_modbus_close s
          = s\<lparr>g_ctx := None, calls := calls s @ [Modbus_close ctx, Modbus_free ctx]\<rparr>"
    by (simp add: close_open)
  have e: "g_ctx s = None \<longrightarrow> thermia_modbus_close s = s"
    by (simp add: close_closed)
  have f: "g_ctx ((thermia_modbus_close ^^ Suc n) s) = None"
    by (simp only: close_funpow close_closes)
  show ?thesis
    by (intro conjI a b c d e f open_success_iff close_funpow)
qed

theorem session_state_machine_witness:
  "thermia_modbus_open (sample_modbus (Some 7) 1 1 5) initial_state ''192.168.0.106'' 502
      MODEL_INVERTER
     = (Inr (), \<lparr>g_ctx = Some 7, g_model = MODEL_INVERTER,
                 calls = [Modbus_new_tcp ''192.168.0.106'' 502, Modbus_set_slave 7 1,
                          Modbus_connect 7]\<rparr>)
   \<and> thermia_modbus_open (sample_modbus (Some 8) 1 1 5)
        \<lparr>g_ctx = Some 7, g_model = MODEL_INVERTER,
          calls = [Modbus_new_tcp ''192.168.0.106'' 502, Modbus_set_slave 7 1,
                   Modbus_connect 7]\<rparr> ''192.168.0.107'' 502 MODEL_MEGA
     = (Inl Initialised_already,
        \<lparr>g_ctx = Some 7, g_model = MODEL_INVERTER,
          calls = [Modbus_new_tcp ''192.168.0.106'' 502, Modbus_set_slave 7 1,
                   Modbus_connect 7]\<rparr>)
   \<and> thermia_modbus_close
        \<lparr>g_ctx = Some 7, g_model = MODEL_INVERTER,
          calls = [Modbus_new_tcp ''192.168.0.106'' 502, Modbus_set_slave 7 1,
                   Modbus_connect 7]\<rparr>
     = \<lparr>g_ctx = None, g_model = MODEL_INVERTER,
         calls = [Modbus_new_tcp ''192.168.0.106'' 502, Modbus_set_slave 7 1,
                  Modbus_connect 7, Modbus_close 7, Modbus_free 7]\<rparr>
   \<and> (thermia_modbus_close ^^ Suc 2)
        \<lparr>g_ctx = Some 7, g_model = MODEL_INVERTER,
          calls = [Modbus_new_tcp ''192.168.0.106'' 502, Modbus_set_slave 7 1,
                   Modbus_connect 7]\<rparr>
     = \<lparr>g_ctx = None, g_model = MODEL_INVERTER,
         calls = [Modbus_new_tcp ''192.168.0.106'' 502, Modbus_set_slave 7 1,
                  Modbus_connect 7, Modbus_close 7, Modbus_free 7]\<rparr>
   \<and> thermia_modbus_open (sample_modbus (Some 7) (- 1) 1 5) initial_state ''192.168.0.106'' 502
        MODEL_INVERTER
     = (Inl Connection_failed,
        \<lparr>g_ctx = None, g_model = MODEL_INVERTER,
          calls = [Modbus_new_tcp ''192.168.0.106'' 502, Modbus_set_slave 7 1,
                   Modbus_connect 7, Modbus_free 7]\<rparr>)
   \<and> thermia_modbus_close initial_state = initial_state"
proof -
  let ?s1 = "\<lparr>g_ctx = Some 7, g_model = MODEL_INVERTER,
               calls = [Modbus_new_tcp ''192.168.0.106'' 502, Modbus_set_slave 7 1,
                        Modbus_connect 7]\<rparr>"
  have op: "thermia_modbus_open (sample_modbus (Some 7) 1 1 5) initial_state ''192.168.0.106''
      502 MODEL_INVERTER = (Inr (), ?s1)"
    by (simp add: thermia_modbus_open_def sample_defs invoke_def Let_def)
  have fl: "thermia_modbus_open (sample_modbus (Some 7) (- 1) 1 5) initial_state
      ''192.168.0.106'' 502 MODEL_INVERTER
     = (Inl Connection_failed,
        \<lparr>g_ctx = None, g_model = MODEL_INVERTER,
          calls = [Modbus_new_tcp ''192.168.0.106'' 502, Modbus_set_slave 7 1,
                   Modbus_connect 7, Modbus_free 7]\<rparr>)"
    by (simp add: thermia_modbus_open_def sample_defs invoke_def Let_def)
  have h1: "g_ctx ?s1 \<noteq> None" and h1': "g_ctx ?s1 = Some 7"
    by simp_all
  have h0: "g_ctx initial_state = None"
    by (simp add: initial_state_def)
  note t1 = session_state_machine [of ?s1 "sample_modbus (Some 8) 1 1 5" "''192.168.0.107''"
      502 MODEL_MEGA _ _ 7 2]
  note t0 = session_state_machine [of initial_state]
  from t1 h1 have again: "thermia_modbus_open (sample_modbus (Some 8) 1 1 5) ?s1
      ''192.168.0.107'' 502 MODEL_MEGA = (Inl Initialised_already, ?s1)"
    by blast
  from t1 h1' have cl: "thermia_modbus_close ?s1
      = ?s1\<lparr>g_ctx := None, calls := calls ?s1 @ [Modbus_close 7, Modbus_free 7]\<rparr>"
    by blast
  from t1 have many: "(thermia_modbus_close ^^ Suc 2) ?s1 = thermia_modbus_close ?s1"
    by blast
  from t0 h0 have idle: "thermia_modbus_close initial_state = initial_state"
    by blast
  from op fl again cl many idle show ?thesis
    by simp
qed

end
